theory Spec2Isabelle
  imports Main "HOL-Library.Mapping" "HOL-Library.AList_Mapping"
begin

section \<open>The base class \<open>SenateElection\<close> of \<open>senate_election.py\<close>\<close>

text \<open>
  The module holds one class. Its instance attributes become the fields of a record (the
  field \<open>s_x\<close> is the attribute \<open>self._x\<close>), every method becomes a function from
  the object's state to either the exception it raises or the value it returns together
  with the state it leaves behind.

  Integers are Python's unbounded \<open>int\<close>. A ballot type is a hashable value (the
  docstrings say a tuple); the type variable \<open>'b\<close> ranges over such values, so the
  \<open>TypeError\<close> of an unhashable key is outside the model. \<open>'c\<close> and \<open>'i\<close> are the
  types of the entries of the two candidate lists, which this class never inspects.
\<close>

subsection \<open>Exceptions\<close>

datatype error = NotImplementedError

subsection \<open>\<open>collections.Counter\<close>\<close>

text \<open>
  The class keeps its per-type weights in a \<open>Counter\<close> of the Python standard library,
  a dictionary with integer values. Two of its operations are used:
  \<^item> \<open>c[k]\<close>: the stored value when \<open>k\<close> is a key; otherwise the dictionary calls
    \<open>__missing__\<close>, which for a \<open>Counter\<close> answers \<open>0\<close> and stores nothing;
  \<^item> \<open>c[k] = v\<close>: stores \<open>v\<close> under \<open>k\<close>, whatever \<open>v\<close> is (zero and negative
    values stay in the dictionary).
  A read returns the dictionary next to the value, so that what a read does to the
  dictionary is part of the model.
\<close>

type_synonym 'k counter = "('k, int) mapping"

definition Counter :: "'k counter" where
  "Counter = Mapping.empty"

definition counter_missing :: "'k counter \<Rightarrow> 'k \<Rightarrow> int \<times> 'k counter" where
  "counter_missing c k = (0, c)"

definition counter_getitem :: "'k counter \<Rightarrow> 'k \<Rightarrow> int \<times> 'k counter" where
  "counter_getitem c k =
     (case Mapping.lookup c k of
        Some v \<Rightarrow> (v, c)
      | None \<Rightarrow> counter_missing c k)"

definition counter_setitem :: "'k counter \<Rightarrow> 'k \<Rightarrow> int \<Rightarrow> 'k counter" where
  "counter_setitem c k v = Mapping.update k v c"

text \<open>\<open>sum(c.values())\<close>: one summand for every key.\<close>

definition counter_values_sum :: "'k counter \<Rightarrow> int" where
  "counter_values_sum c = (\<Sum>k \<in> Mapping.keys c. the (Mapping.lookup c k))"

subsection \<open>The object's state\<close>

record ('b, 'c, 'i) senate_election =
  s_n :: int
  s_m :: int
  s_seats :: int
  s_ballots_drawn :: int
  s_ballots :: "'b set"
  s_ballot_weights :: "'b counter"
  s_candidates :: "'c list"
  s_candidate_ids :: "'i list"
  s_election_id :: "string option"
  s_type :: "string option"

text \<open>A method: the receiver's state in, an exception or a value and the new state out.\<close>

type_synonym ('a, 'b, 'c, 'i) meth =
  "('b, 'c, 'i) senate_election \<Rightarrow> error + 'a \<times> ('b, 'c, 'i) senate_election"

text \<open>
  The class attribute \<open>SenateElection.TYPE\<close> of the base class (\<open>TYPE\<close> alone is
  reserved syntax of the logic).
\<close>

definition SenateElection_TYPE :: "string option" where
  "SenateElection_TYPE = None"

text \<open>
  \<open>__init__\<close> reads \<open>self.__class__.TYPE\<close>, the attribute of the class being
  instantiated: it is the argument \<open>cls_TYPE\<close>.
\<close>

definition init :: "string option \<Rightarrow> ('b, 'c, 'i) senate_election" where
  "init cls_TYPE =
     \<lparr> s_n = 0,
       s_m = 0,
       s_seats = 0,
       s_ballots_drawn = 0,
       s_ballots = {},
       s_ballot_weights = Counter,
       s_candidates = [],
       s_candidate_ids = [],
       s_election_id = None,
       s_type = cls_TYPE \<rparr>"

text \<open>\<open>SenateElection()\<close>: a freshly constructed object of the base class.\<close>

definition SenateElection :: "unit \<Rightarrow> ('b, 'c, 'i) senate_election" where
  "SenateElection u = init SenateElection_TYPE"

subsection \<open>Methods\<close>

definition get_num_cast_ballots :: "(int, 'b, 'c, 'i) meth" where
  "get_num_cast_ballots self = Inr (s_n self, self)"

definition get_num_seats :: "(int, 'b, 'c, 'i) meth" where
  "get_num_seats self = Inr (s_seats self, self)"

definition get_num_ballots_drawn :: "(int, 'b, 'c, 'i) meth" where
  "get_num_ballots_drawn self = Inr (s_ballots_drawn self, self)"

definition get_ballots :: "('b set, 'b, 'c, 'i) meth" where
  "get_ballots self = Inr (s_ballots self, self)"

definition get_weight_of_ballot :: "'b \<Rightarrow> (int, 'b, 'c, 'i) meth" where
  "get_weight_of_ballot ballot self =
     (let (v, c) = counter_getitem (s_ballot_weights self) ballot
      in Inr (v, self\<lparr>s_ballot_weights := c\<rparr>))"

definition get_candidates :: "('c list, 'b, 'c, 'i) meth" where
  "get_candidates self = Inr (s_candidates self, self)"

definition get_candidate_ids :: "('i list, 'b, 'c, 'i) meth" where
  "get_candidate_ids self = Inr (s_candidate_ids self, self)"

definition get_election_id :: "(string option, 'b, 'c, 'i) meth" where
  "get_election_id self = Inr (s_election_id self, self)"

definition get_type :: "(string option, 'b, 'c, 'i) meth" where
  "get_type self = Inr (s_type self, self)"

text \<open>
  \<open>add_ballot\<close>, statement by statement: the set insertion, the augmented assignment
  \<open>self._ballot_weights[ballot] += weight\<close> (a read of the counter, then a store of
  the sum), and the addition to the total. It returns \<open>None\<close>, here \<open>()\<close>.
\<close>

definition add_ballot :: "'b \<Rightarrow> int \<Rightarrow> (unit, 'b, 'c, 'i) meth" where
  "add_ballot ballot weight self =
     (let self1 = self\<lparr>s_ballots := insert ballot (s_ballots self)\<rparr>;
          (v, c) = counter_getitem (s_ballot_weights self1) ballot;
          self2 = self1\<lparr>s_ballot_weights := counter_setitem c ballot (v + weight)\<rparr>;
          self3 = self2\<lparr>s_ballots_drawn := s_ballots_drawn self2 + weight\<rparr>
      in Inr ((), self3))"

definition draw_ballots :: "(unit, 'b, 'c, 'i) meth" where
  "draw_ballots self = Inl NotImplementedError"

definition get_outcome :: "'b counter \<Rightarrow> ('i list, 'b, 'c, 'i) meth" where
  "get_outcome ballot_weights self = Inl NotImplementedError"

subsection \<open>The object as a state machine\<close>

text \<open>
  A caller's view of the object: one constructor per method, with the method's arguments,
  and one type for the values the methods return.
\<close>

datatype 'b call =
    Get_num_cast_ballots
  | Get_num_seats
  | Get_num_ballots_drawn
  | Get_ballots
  | Get_weight_of_ballot 'b
  | Get_candidates
  | Get_candidate_ids
  | Get_election_id
  | Get_type
  | Add_ballot 'b int
  | Draw_ballots
  | Get_outcome "'b counter"

datatype ('b, 'c, 'i) pyval =
    IntV int
  | BallotSetV "'b set"
  | CandidatesV "'c list"
  | CandidateIdsV "'i list"
  | StrOrNoneV "string option"
  | NoneV

definition returning ::
  "('a \<Rightarrow> ('b, 'c, 'i) pyval) \<Rightarrow> error + 'a \<times> ('b, 'c, 'i) senate_election \<Rightarrow>
     error + ('b, 'c, 'i) pyval \<times> ('b, 'c, 'i) senate_election" where
  "returning f r = (case r of Inl e \<Rightarrow> Inl e | Inr (v, self') \<Rightarrow> Inr (f v, self'))"

fun invoke :: "'b call \<Rightarrow> (('b, 'c, 'i) pyval, 'b, 'c, 'i) meth" where
  "invoke Get_num_cast_ballots self = returning IntV (get_num_cast_ballots self)"
| "invoke Get_num_seats self = returning IntV (get_num_seats self)"
| "invoke Get_num_ballots_drawn self = returning IntV (get_num_ballots_drawn self)"
| "invoke Get_ballots self = returning BallotSetV (get_ballots self)"
| "invoke (Get_weight_of_ballot ballot) self = returning IntV (get_weight_of_ballot ballot self)"
| "invoke Get_candidates self = returning CandidatesV (get_candidates self)"
| "invoke Get_candidate_ids self = returning CandidateIdsV (get_candidate_ids self)"
| "invoke Get_election_id self = returning StrOrNoneV (get_election_id self)"
| "invoke Get_type self = returning StrOrNoneV (get_type self)"
| "invoke (Add_ballot ballot weight) self = returning (\<lambda>_. NoneV) (add_ballot ballot weight self)"
| "invoke Draw_ballots self = returning (\<lambda>_. NoneV) (draw_ballots self)"
| "invoke (Get_outcome ballot_weights) self = returning CandidateIdsV (get_outcome ballot_weights self)"

text \<open>
  The state a call leaves behind. Both raising methods raise in their first statement, so
  an exception leaves the object as it was.
\<close>

definition step :: "'b call \<Rightarrow> ('b, 'c, 'i) senate_election \<Rightarrow> ('b, 'c, 'i) senate_election" where
  "step c self = (case invoke c self of Inl e \<Rightarrow> self | Inr (v, self') \<Rightarrow> self')"

fun run :: "('b, 'c, 'i) senate_election \<Rightarrow> 'b call list \<Rightarrow> ('b, 'c, 'i) senate_election" where
  "run self [] = self"
| "run self (c # cs) = run (step c self) cs"

text \<open>The nine accessors, and the calls that meet \<open>add_ballot\<close>'s precondition.\<close>

fun is_getter :: "'b call \<Rightarrow> bool" where
  "is_getter (Add_ballot ballot weight) = False"
| "is_getter Draw_ballots = False"
| "is_getter (Get_outcome ballot_weights) = False"
| "is_getter c = True"

fun is_add_ballot :: "'b call \<Rightarrow> bool" where
  "is_add_ballot (Add_ballot ballot weight) = True"
| "is_add_ballot c = False"

fun positive_weight :: "'b call \<Rightarrow> bool" where
  "positive_weight (Add_ballot ballot weight) = (0 < weight)"
| "positive_weight c = True"

text \<open>The ballot arguments passed to \<open>add_ballot\<close> in a sequence of calls.\<close>

fun added_ballots :: "'b call list \<Rightarrow> 'b set" where
  "added_ballots [] = {}"
| "added_ballots (Add_ballot ballot weight # cs) = insert ballot (added_ballots cs)"
| "added_ballots (c # cs) = added_ballots cs"

text \<open>A sequence of \<open>add_ballot\<close> calls, given as its (ballot, weight) pairs.\<close>

definition add_ballot_calls :: "('b \<times> int) list \<Rightarrow> 'b call list" where
  "add_ballot_calls bws = map (\<lambda>(ballot, weight). Add_ballot ballot weight) bws"

text \<open>The sum of the weights passed with ballot \<open>b\<close>.\<close>

definition weight_passed :: "'b \<Rightarrow> ('b \<times> int) list \<Rightarrow> int" where
  "weight_passed b bws = sum_list (map snd (filter (\<lambda>(ballot, weight). ballot = b) bws))"

text \<open>The state invariant of the data model.\<close>

definition invariant :: "('b, 'c, 'i) senate_election \<Rightarrow> bool" where
  "invariant self \<longleftrightarrow>
     s_ballots_drawn self = counter_values_sum (s_ballot_weights self) \<and>
     s_ballots self = Mapping.keys (s_ballot_weights self) \<and>
     (\<forall>k \<in> Mapping.keys (s_ballot_weights self).
        0 < the (Mapping.lookup (s_ballot_weights self) k))"

text \<open>
  The invariant of a dictionary that holds finitely many keys, as every Python dictionary
  does; the type of mappings alone does not say so.
\<close>

definition finite_invariant :: "('b, 'c, 'i) senate_election \<Rightarrow> bool" where
  "finite_invariant self \<longleftrightarrow>
     finite (Mapping.keys (s_ballot_weights self)) \<and> invariant self"

section \<open>Basic facts\<close>

lemma counter_getitem_eq:
  "counter_getitem c k = (Mapping.lookup_default 0 c k, c)"
  by (simp add: counter_getitem_def counter_missing_def Mapping.lookup_default_def
      split: option.split)

lemma get_weight_of_ballot_eq:
  "get_weight_of_ballot ballot self = Inr (Mapping.lookup_default 0 (s_ballot_weights self) ballot, self)"
  by (simp add: get_weight_of_ballot_def counter_getitem_eq)

lemma add_ballot_eq:
  "add_ballot ballot weight self =
     Inr ((), self\<lparr>s_ballots := insert ballot (s_ballots self),
                   s_ballot_weights :=
                     Mapping.update ballot
                       (Mapping.lookup_default 0 (s_ballot_weights self) ballot + weight)
                       (s_ballot_weights self),
                   s_ballots_drawn := s_ballots_drawn self + weight\<rparr>)"
  by (simp add: add_ballot_def counter_getitem_eq counter_setitem_def)

lemma returning_Inr [simp]: "returning f (Inr (v, self)) = Inr (f v, self)"
  by (simp add: returning_def)

lemma returning_Inl [simp]: "returning f (Inl e) = Inl e"
  by (simp add: returning_def)

lemma step_getter: "is_getter c \<Longrightarrow> step c self = self"
  by (cases c)
     (simp_all add: step_def get_num_cast_ballots_def get_num_seats_def
        get_num_ballots_drawn_def get_ballots_def get_weight_of_ballot_eq get_candidates_def
        get_candidate_ids_def get_election_id_def get_type_def)

lemma step_Draw_ballots [simp]: "step Draw_ballots self = self"
  by (simp add: step_def draw_ballots_def)

lemma step_Get_outcome [simp]: "step (Get_outcome ballot_weights) self = self"
  by (simp add: step_def get_outcome_def)

lemma step_Add_ballot:
  "step (Add_ballot ballot weight) self =
     self\<lparr>s_ballots := insert ballot (s_ballots self),
          s_ballot_weights :=
            Mapping.update ballot
              (Mapping.lookup_default 0 (s_ballot_weights self) ballot + weight)
              (s_ballot_weights self),
          s_ballots_drawn := s_ballots_drawn self + weight\<rparr>"
  by (simp add: step_def add_ballot_eq)

lemma step_not_add_ballot: "\<not> is_add_ballot c \<Longrightarrow> step c self = self"
  by (cases c) (simp_all add: step_getter)

lemma init_fields:
  "s_ballots_drawn (init T) = 0"
  "s_ballots (init T) = {}"
  "s_ballot_weights (init T) = Mapping.empty"
  "s_type (init T) = T"
  by (simp_all add: init_def Counter_def)

lemma run_add_ballot_calls_Cons:
  "run self (add_ballot_calls ((b, w) # bws)) =
     run (step (Add_ballot b w) self) (add_ballot_calls bws)"
  by (simp add: add_ballot_calls_def)

lemma drawn_after_add_ballot_calls:
  "s_ballots_drawn (run self (add_ballot_calls bws)) =
     s_ballots_drawn self + sum_list (map snd bws)"
proof (induction bws arbitrary: self)
  case Nil
  show ?case by (simp add: add_ballot_calls_def)
next
  case (Cons p bws)
  obtain b w where p: "p = (b, w)" by (cases p)
  show ?case
    unfolding p run_add_ballot_calls_Cons Cons.IH
    by (simp add: step_Add_ballot)
qed

lemma weight_after_add_ballot_calls:
  "Mapping.lookup_default 0 (s_ballot_weights (run self (add_ballot_calls bws))) x =
     Mapping.lookup_default 0 (s_ballot_weights self) x + weight_passed x bws"
proof (induction bws arbitrary: self)
  case Nil
  show ?case by (simp add: add_ballot_calls_def weight_passed_def)
next
  case (Cons p bws)
  obtain b w where p: "p = (b, w)" by (cases p)
  show ?case
    unfolding p run_add_ballot_calls_Cons Cons.IH
    by (simp add: step_Add_ballot weight_passed_def Mapping.lookup_default_update')
qed

subsection \<open>The counter's keys and values\<close>

lemma lookup_default_in_keys:
  "k \<in> Mapping.keys c \<Longrightarrow> Mapping.lookup_default 0 c k = the (Mapping.lookup c k)"
  by (auto simp add: Mapping.lookup_default_def Mapping.keys_dom_lookup)

lemma lookup_default_not_in_keys:
  "k \<notin> Mapping.keys c \<Longrightarrow> Mapping.lookup_default 0 c k = (0::int)"
  by (auto simp add: Mapping.lookup_default_def Mapping.keys_dom_lookup split: option.split)

lemma counter_values_sum_update:
  assumes fin: "finite (Mapping.keys c)"
  shows "counter_values_sum (Mapping.update k (Mapping.lookup_default 0 c k + w) c) =
           counter_values_sum c + w"
proof (cases "k \<in> Mapping.keys c")
  case True
  have rest: "(\<Sum>x \<in> Mapping.keys c - {k}.
                 the (Mapping.lookup (Mapping.update k (Mapping.lookup_default 0 c k + w) c) x)) =
              (\<Sum>x \<in> Mapping.keys c - {k}. the (Mapping.lookup c x))"
    by (rule sum.cong) (auto simp add: Mapping.lookup_update')
  have "counter_values_sum (Mapping.update k (Mapping.lookup_default 0 c k + w) c) =
          (Mapping.lookup_default 0 c k + w) +
          (\<Sum>x \<in> Mapping.keys c - {k}. the (Mapping.lookup c x))"
    using True fin rest
    by (simp add: counter_values_sum_def insert_absorb sum.remove [of _ k])
  also have "\<dots> = counter_values_sum c + w"
    using True fin
    by (simp add: counter_values_sum_def sum.remove [of _ k] lookup_default_in_keys)
  finally show ?thesis .
next
  case False
  have rest: "(\<Sum>x \<in> Mapping.keys c.
                 the (Mapping.lookup (Mapping.update k (Mapping.lookup_default 0 c k + w) c) x)) =
              (\<Sum>x \<in> Mapping.keys c. the (Mapping.lookup c x))"
    using False by (intro sum.cong) (auto simp add: Mapping.lookup_update')
  show ?thesis
    using False fin rest
    by (simp add: counter_values_sum_def lookup_default_not_in_keys)
qed

lemma keys_run:
  "Mapping.keys (s_ballot_weights (run self cs)) =
     Mapping.keys (s_ballot_weights self) \<union> added_ballots cs"
proof (induction cs arbitrary: self)
  case Nil
  show ?case by simp
next
  case (Cons c cs)
  show ?case
    by (cases c) (simp_all add: Cons.IH step_getter step_Add_ballot)
qed

lemma ballots_run:
  "s_ballots (run self cs) = s_ballots self \<union> added_ballots cs"
proof (induction cs arbitrary: self)
  case Nil
  show ?case by simp
next
  case (Cons c cs)
  show ?case
    by (cases c) (simp_all add: Cons.IH step_getter step_Add_ballot)
qed

lemma added_ballots_add_ballot_calls:
  "added_ballots (add_ballot_calls bws) = image fst (set bws)"
proof (induction bws)
  case Nil
  show ?case by (simp add: add_ballot_calls_def)
next
  case (Cons p bws)
  obtain b w where p: "p = (b, w)" by (cases p)
  from Cons.IH show ?case
    by (simp add: p add_ballot_calls_def)
qed

subsection \<open>The invariant is inductive\<close>

lemma finite_invariant_init: "finite_invariant (init T)"
  by (simp add: finite_invariant_def invariant_def init_fields counter_values_sum_def)

lemma finite_invariant_step:
  assumes inv: "finite_invariant self" and pos: "positive_weight c"
  shows "finite_invariant (step c self)"
proof (cases c)
  case (Add_ballot b w)
  have w: "0 < w" using pos Add_ballot by simp
  have fin: "finite (Mapping.keys (s_ballot_weights self))"
    and total: "s_ballots_drawn self = counter_values_sum (s_ballot_weights self)"
    and keys: "s_ballots self = Mapping.keys (s_ballot_weights self)"
    and positive: "\<And>k. k \<in> Mapping.keys (s_ballot_weights self) \<Longrightarrow>
                     0 < the (Mapping.lookup (s_ballot_weights self) k)"
    using inv by (simp_all add: finite_invariant_def invariant_def)
  have old: "0 \<le> Mapping.lookup_default 0 (s_ballot_weights self) b"
  proof (cases "b \<in> Mapping.keys (s_ballot_weights self)")
    case True
    then show ?thesis using positive [of b] by (simp add: lookup_default_in_keys)
  next
    case False
    then show ?thesis by (simp add: lookup_default_not_in_keys)
  qed
  show ?thesis
    unfolding Add_ballot step_Add_ballot finite_invariant_def invariant_def
    using fin total keys positive old w
    by (auto simp add: counter_values_sum_update Mapping.lookup_update')
qed (simp_all add: inv step_getter)

lemma finite_invariant_run:
  "finite_invariant self \<Longrightarrow> \<forall>c \<in> set cs. positive_weight c \<Longrightarrow>
     finite_invariant (run self cs)"
  by (induction cs arbitrary: self) (simp_all add: finite_invariant_step)

subsection \<open>Fields that calls leave alone or only raise\<close>

lemma type_step: "s_type (step c self) = s_type self"
  by (cases c) (simp_all add: step_getter step_Add_ballot)

lemma type_run: "s_type (run self cs) = s_type self"
  by (induction cs arbitrary: self) (simp_all add: type_step)

lemma drawn_nonneg_run:
  "0 \<le> s_ballots_drawn self \<Longrightarrow> \<forall>c \<in> set cs. positive_weight c \<Longrightarrow>
     0 \<le> s_ballots_drawn (run self cs)"
proof (induction cs arbitrary: self)
  case Nil
  then show ?case by simp
next
  case (Cons c cs)
  have "0 \<le> s_ballots_drawn (step c self)"
    using Cons.prems by (cases c) (simp_all add: step_getter step_Add_ballot)
  with Cons show ?case by simp
qed

section \<open>The claims\<close>

text \<open>
  C1. After any sequence of \<open>add_ballot(ballot, w)\<close> calls on a freshly constructed
  object, each \<open>w\<close> a positive integer, \<open>get_num_ballots_drawn()\<close> returns the sum
  of all the \<open>w\<close> passed, and for every ballot type \<open>b\<close>,
  \<open>get_weight_of_ballot(b)\<close> returns the sum of the \<open>w\<close> of exactly those calls
  that passed \<open>b\<close>. The object may be of any class that inherits the constructor
  (\<open>cls_TYPE\<close> is that class's tag). The precondition on the weights is the
  claim's; the two sums come out the same without it (see C8).
\<close>

theorem add_ballot_totals:
  assumes "\<forall>(ballot, weight) \<in> set bws. 0 < weight"
  shows "get_num_ballots_drawn (run (init cls_TYPE) (add_ballot_calls bws)) =
           Inr (sum_list (map snd bws), run (init cls_TYPE) (add_ballot_calls bws)) \<and>
         get_weight_of_ballot b (run (init cls_TYPE) (add_ballot_calls bws)) =
           Inr (weight_passed b bws, run (init cls_TYPE) (add_ballot_calls bws))"
  by (simp add: get_num_ballots_drawn_def get_weight_of_ballot_eq drawn_after_add_ballot_calls
      weight_after_add_ballot_calls init_fields Mapping.lookup_default_empty)

theorem add_ballot_totals_witness:
  "list_all (\<lambda>(ballot, weight). 0 < weight)
     [([''A'', ''B''], 5), ([''B'', ''A''], 3), ([''A'', ''B''], 2 :: int)] \<and>
   get_num_ballots_drawn
     (run (SenateElection () :: (string list, string, string) senate_election)
        (add_ballot_calls [([''A'', ''B''], 5), ([''B'', ''A''], 3), ([''A'', ''B''], 2)])) =
     Inr (10, run (SenateElection ())
        (add_ballot_calls [([''A'', ''B''], 5), ([''B'', ''A''], 3), ([''A'', ''B''], 2)])) \<and>
   get_weight_of_ballot [''A'', ''B'']
     (run (SenateElection () :: (string list, string, string) senate_election)
        (add_ballot_calls [([''A'', ''B''], 5), ([''B'', ''A''], 3), ([''A'', ''B''], 2)])) =
     Inr (7, run (SenateElection ())
        (add_ballot_calls [([''A'', ''B''], 5), ([''B'', ''A''], 3), ([''A'', ''B''], 2)]))"
  using add_ballot_totals [of "[([''A'', ''B''], 5), ([''B'', ''A''], 3), ([''A'', ''B''], 2)]"
      SenateElection_TYPE "[''A'', ''B'']"]
  by (simp add: SenateElection_def weight_passed_def)

text \<open>
  C2. From a fresh object, after every sequence of operations whose \<open>add_ballot\<close>
  calls all pass a strictly positive weight, the state invariant holds: the drawn total
  is the sum of the values of the weight mapping, the set of drawn ballot types is the set
  of the mapping's keys, and every stored weight is strictly positive.
\<close>

theorem invariant_maintained:
  assumes "\<forall>c \<in> set cs. positive_weight c"
  shows "invariant (run (init cls_TYPE) cs)"
  by (rule conjunct2
      [OF finite_invariant_run [OF finite_invariant_init assms, unfolded finite_invariant_def]])

theorem invariant_maintained_witness:
  "list_all positive_weight
     [Add_ballot [''A'', ''B''] 5, Get_weight_of_ballot [''C''],
      Add_ballot [''B'', ''A''] 3, Draw_ballots, Add_ballot [''A'', ''B''] 2] \<and>
   invariant (run (SenateElection () :: (string list, string, string) senate_election)
     [Add_ballot [''A'', ''B''] 5, Get_weight_of_ballot [''C''], Add_ballot [''B'', ''A''] 3,
      Draw_ballots, Add_ballot [''A'', ''B''] 2]) \<and>
   [''A'', ''B''] \<in> Mapping.keys (s_ballot_weights
     (run (SenateElection () :: (string list, string, string) senate_election)
     [Add_ballot [''A'', ''B''] 5, Get_weight_of_ballot [''C''], Add_ballot [''B'', ''A''] 3,
      Draw_ballots, Add_ballot [''A'', ''B''] 2]))"
  using invariant_maintained [of "[Add_ballot [''A'', ''B''] 5, Get_weight_of_ballot [''C''],
      Add_ballot [''B'', ''A''] 3, Draw_ballots, Add_ballot [''A'', ''B''] 2]" SenateElection_TYPE]
  by (simp add: SenateElection_def step_Add_ballot step_getter)

text \<open>
  C3. After any sequence of \<open>add_ballot\<close> calls on a freshly constructed object,
  \<open>get_ballots()\<close> returns exactly the set of the distinct ballot arguments passed
  so far; on the fresh object it returns the empty set.
\<close>

theorem get_ballots_distinct_arguments:
  "get_ballots (run (init cls_TYPE) (add_ballot_calls bws)) =
     Inr (image fst (set bws), run (init cls_TYPE) (add_ballot_calls bws)) \<and>
   get_ballots (init cls_TYPE) = Inr ({}, init cls_TYPE)"
  by (simp add: get_ballots_def ballots_run added_ballots_add_ballot_calls init_fields)

text \<open>
  C4. For a ballot type \<open>b\<close> that was never passed to \<open>add_ballot\<close>, whatever
  else was called on the object since its construction, \<open>get_weight_of_ballot(b)\<close>
  returns \<open>0\<close> and raises nothing.
\<close>

theorem never_added_weight_zero:
  assumes "b \<notin> added_ballots cs"
  shows "get_weight_of_ballot b (run (init cls_TYPE) cs) = Inr (0, run (init cls_TYPE) cs)"
  using assms
  by (simp add: get_weight_of_ballot_eq lookup_default_not_in_keys keys_run init_fields)

theorem never_added_weight_zero_witness:
  "[''C''] \<notin> added_ballots [Add_ballot [''A'', ''B''] 5, Get_ballots, Add_ballot [''B'', ''A''] 3] \<and>
   get_weight_of_ballot [''C'']
     (run (SenateElection () :: (string list, string, string) senate_election)
        [Add_ballot [''A'', ''B''] 5, Get_ballots, Add_ballot [''B'', ''A''] 3]) =
     Inr (0, run (SenateElection ())
        [Add_ballot [''A'', ''B''] 5, Get_ballots, Add_ballot [''B'', ''A''] 3])"
  using never_added_weight_zero [of "[''C'']"
      "[Add_ballot [''A'', ''B''] 5, Get_ballots, Add_ballot [''B'', ''A''] 3]" SenateElection_TYPE]
  by (simp add: SenateElection_def)

text \<open>
  C5. On the base class, \<open>draw_ballots()\<close> and \<open>get_outcome(ballot_weights)\<close>
  raise \<open>NotImplementedError\<close> in every state of the object and for every argument.
\<close>

theorem abstract_methods_raise:
  "draw_ballots self = Inl NotImplementedError \<and>
   get_outcome ballot_weights self = Inl NotImplementedError \<and>
   invoke Draw_ballots self = Inl NotImplementedError \<and>
   invoke (Get_outcome ballot_weights) self = Inl NotImplementedError"
  by (simp add: draw_ballots_def get_outcome_def)

text \<open>
  C6. The total that \<open>get_num_ballots_drawn()\<close> returns is the field
  \<open>_ballots_drawn\<close>. It is non-negative after every sequence of calls from a fresh
  object whose \<open>add_ballot\<close> weights are positive; a call of any method other than
  \<open>add_ballot\<close> leaves it as it is, and \<open>add_ballot\<close> with a positive weight
  makes it strictly larger. So it never decreases.
\<close>

theorem drawn_total_monotone:
  fixes self :: "('b, 'c, 'i) senate_election"
  shows
  "get_num_ballots_drawn self = Inr (s_ballots_drawn self, self) \<and>
   ((\<forall>c \<in> set cs. positive_weight c) \<longrightarrow>
      0 \<le> s_ballots_drawn (run (init cls_TYPE :: ('b, 'c, 'i) senate_election) cs)) \<and>
   (\<not> is_add_ballot c \<longrightarrow> s_ballots_drawn (step c self) = s_ballots_drawn self) \<and>
   (0 < w \<longrightarrow> s_ballots_drawn self < s_ballots_drawn (step (Add_ballot b w) self))"
  by (simp add: get_num_ballots_drawn_def init_fields step_not_add_ballot step_Add_ballot
      drawn_nonneg_run)

theorem drawn_total_monotone_witness:
  "list_all positive_weight
     [Add_ballot [''A'', ''B''] 5, Get_num_seats, Add_ballot [''B'', ''A''] 3] \<and>
   \<not> is_add_ballot (Get_outcome (Mapping.empty :: string list counter)) \<and> (0::int) < 2 \<and>
   get_num_ballots_drawn
     (run (SenateElection () :: (string list, string, string) senate_election)
        [Add_ballot [''A'', ''B''] 5]) =
     Inr (5, run (SenateElection ()) [Add_ballot [''A'', ''B''] 5]) \<and>
   0 \<le> s_ballots_drawn
     (run (SenateElection () :: (string list, string, string) senate_election)
        [Add_ballot [''A'', ''B''] 5, Get_num_seats, Add_ballot [''B'', ''A''] 3]) \<and>
   s_ballots_drawn (step (Get_outcome Mapping.empty)
     (run (SenateElection () :: (string list, string, string) senate_election)
        [Add_ballot [''A'', ''B''] 5])) = 5 \<and>
   s_ballots_drawn (step (Add_ballot [''A'', ''B''] 2)
     (run (SenateElection () :: (string list, string, string) senate_election)
        [Add_ballot [''A'', ''B''] 5])) = 7"
  using drawn_total_monotone
    [of "run (SenateElection () :: (string list, string, string) senate_election)
           [Add_ballot [''A'', ''B''] 5]"
        "[Add_ballot [''A'', ''B''] 5, Get_num_seats, Add_ballot [''B'', ''A''] 3]"
        SenateElection_TYPE "Get_outcome Mapping.empty" 2 "[''A'', ''B'']"]
  by (simp add: SenateElection_def step_Add_ballot step_getter init_fields)

text \<open>
  C7. Each of the nine accessors returns a value and leaves the object's state as it
  found it, so a second call right after the first returns the same value.
\<close>

theorem getters_pure:
  assumes "is_getter c"
  shows "\<exists>v. invoke c self = Inr (v, self) \<and> invoke c (step c self) = Inr (v, self)"
  using assms
  by (cases c)
     (simp_all add: step_getter get_num_cast_ballots_def get_num_seats_def
        get_num_ballots_drawn_def get_ballots_def get_weight_of_ballot_eq get_candidates_def
        get_candidate_ids_def get_election_id_def get_type_def)

theorem getters_pure_witness:
  "is_getter (Get_weight_of_ballot [''C'']) \<and>
   invoke (Get_weight_of_ballot [''C''])
     (run (SenateElection () :: (string list, string, string) senate_election)
        [Add_ballot [''A'', ''B''] 5]) =
     Inr (IntV 0, run (SenateElection ()) [Add_ballot [''A'', ''B''] 5]) \<and>
   invoke (Get_weight_of_ballot [''C''])
     (step (Get_weight_of_ballot [''C''])
        (run (SenateElection () :: (string list, string, string) senate_election)
           [Add_ballot [''A'', ''B''] 5])) =
     Inr (IntV 0, run (SenateElection ()) [Add_ballot [''A'', ''B''] 5])"
  using getters_pure [of "Get_weight_of_ballot [''C'']"
      "run (SenateElection () :: (string list, string, string) senate_election)
         [Add_ballot [''A'', ''B''] 5]"]
  by (simp add: SenateElection_def step_Add_ballot step_getter init_fields
      get_weight_of_ballot_eq Mapping.lookup_default_update' Mapping.lookup_default_empty)

text \<open>
  C8. \<open>add_ballot\<close> checks nothing about its weight: for every integer \<open>w\<close>,
  zero and negative ones included, and in every state, it raises nothing, inserts the
  ballot into the set of drawn ballot types, stores under the ballot the weight it had
  before (\<open>0\<close> when it was no key) plus \<open>w\<close>, which is then what
  \<open>get_weight_of_ballot\<close> returns for it, and adds \<open>w\<close> to the total.
  After \<open>add_ballot(b, 0)\<close> on a fresh object, \<open>get_ballots()\<close> is \<open>{b}\<close>,
  while \<open>get_weight_of_ballot(b)\<close> and \<open>get_num_ballots_drawn()\<close> both return
  \<open>0\<close>, and the mapping holds \<open>b\<close> with the value \<open>0\<close>. After
  \<open>add_ballot(b, 5)\<close> and \<open>add_ballot(b, -7)\<close> on a fresh object, the stored
  weight of \<open>b\<close> and the total are both \<open>-2\<close>.
\<close>

theorem add_ballot_unvalidated:
  fixes self :: "('b, 'c, 'i) senate_election"
  shows
  "add_ballot b w self = Inr ((), step (Add_ballot b w) self) \<and>
   s_ballots (step (Add_ballot b w) self) = insert b (s_ballots self) \<and>
   s_ballot_weights (step (Add_ballot b w) self) =
     Mapping.update b (Mapping.lookup_default 0 (s_ballot_weights self) b + w)
       (s_ballot_weights self) \<and>
   Mapping.lookup (s_ballot_weights (step (Add_ballot b w) self)) b =
     Some (Mapping.lookup_default 0 (s_ballot_weights self) b + w) \<and>
   get_weight_of_ballot b (step (Add_ballot b w) self) =
     Inr (Mapping.lookup_default 0 (s_ballot_weights self) b + w, step (Add_ballot b w) self) \<and>
   s_ballots_drawn (step (Add_ballot b w) self) = s_ballots_drawn self + w \<and>
   get_ballots (step (Add_ballot b 0) (init cls_TYPE :: ('b, 'c, 'i) senate_election)) =
     Inr ({b}, step (Add_ballot b 0) (init cls_TYPE)) \<and>
   get_weight_of_ballot b (step (Add_ballot b 0) (init cls_TYPE :: ('b, 'c, 'i) senate_election)) =
     Inr (0, step (Add_ballot b 0) (init cls_TYPE)) \<and>
   get_num_ballots_drawn (step (Add_ballot b 0) (init cls_TYPE :: ('b, 'c, 'i) senate_election)) =
     Inr (0, step (Add_ballot b 0) (init cls_TYPE)) \<and>
   Mapping.lookup
     (s_ballot_weights (step (Add_ballot b 0) (init cls_TYPE :: ('b, 'c, 'i) senate_election))) b =
     Some 0 \<and>
   Mapping.lookup
     (s_ballot_weights
        (run (init cls_TYPE :: ('b, 'c, 'i) senate_election) [Add_ballot b 5, Add_ballot b (- 7)])) b =
     Some (- 2) \<and>
   get_weight_of_ballot b
     (run (init cls_TYPE :: ('b, 'c, 'i) senate_election) [Add_ballot b 5, Add_ballot b (- 7)]) =
     Inr (- 2, run (init cls_TYPE) [Add_ballot b 5, Add_ballot b (- 7)]) \<and>
   get_num_ballots_drawn
     (run (init cls_TYPE :: ('b, 'c, 'i) senate_election) [Add_ballot b 5, Add_ballot b (- 7)]) =
     Inr (- 2, run (init cls_TYPE) [Add_ballot b 5, Add_ballot b (- 7)])"
  by (simp add: step_Add_ballot add_ballot_eq get_ballots_def
      get_weight_of_ballot_eq get_num_ballots_drawn_def init_fields
      Mapping.lookup_default_update Mapping.lookup_default_empty)

text \<open>
  C9. \<open>get_weight_of_ballot\<close> leaves the whole state as it was, also when the ballot
  type asked for is not a key of the weight mapping: it then returns \<open>0\<close> and the
  type is still not a key afterwards, so the set of drawn types and the keys of the
  mapping stay as they were.
\<close>

theorem lookup_leaves_state:
  "get_weight_of_ballot b self = Inr (fst (counter_getitem (s_ballot_weights self) b), self) \<and>
   step (Get_weight_of_ballot b) self = self \<and>
   (b \<notin> Mapping.keys (s_ballot_weights self) \<longrightarrow>
      get_weight_of_ballot b self = Inr (0, self) \<and>
      b \<notin> Mapping.keys (s_ballot_weights (step (Get_weight_of_ballot b) self)))"
  by (simp add: get_weight_of_ballot_eq counter_getitem_eq step_getter lookup_default_not_in_keys)

theorem lookup_leaves_state_witness:
  "[''C''] \<notin> Mapping.keys (s_ballot_weights
     (run (SenateElection () :: (string list, string, string) senate_election)
        [Add_ballot [''A'', ''B''] 5])) \<and>
   get_weight_of_ballot [''C'']
     (run (SenateElection () :: (string list, string, string) senate_election)
        [Add_ballot [''A'', ''B''] 5]) =
     Inr (0, run (SenateElection ()) [Add_ballot [''A'', ''B''] 5]) \<and>
   Mapping.keys (s_ballot_weights (step (Get_weight_of_ballot [''C''])
     (run (SenateElection () :: (string list, string, string) senate_election)
        [Add_ballot [''A'', ''B''] 5]))) = {[''A'', ''B'']}"
  using lookup_leaves_state [of "[''C'']"
      "run (SenateElection () :: (string list, string, string) senate_election)
         [Add_ballot [''A'', ''B''] 5]"]
  by (simp add: SenateElection_def step_Add_ballot step_getter init_fields
      get_weight_of_ballot_eq counter_getitem_eq Mapping.lookup_default_update'
      Mapping.lookup_default_empty)

text \<open>
  C10. The class attribute \<open>TYPE\<close> of the base class is \<open>None\<close>, the
  constructor copies the attribute of the object's class into \<open>_type\<close>, and no call
  changes that field: \<open>get_type()\<close> on an object of the base class returns
  \<open>None\<close>, fresh or after any sequence of calls.
\<close>

theorem base_type_is_None:
  fixes self :: "('b, 'c, 'i) senate_election"
  shows
  "SenateElection_TYPE = None \<and>
   get_type (SenateElection () :: ('b, 'c, 'i) senate_election) = Inr (None, SenateElection ()) \<and>
   s_type (init cls_TYPE :: ('b, 'c, 'i) senate_election) = cls_TYPE \<and>
   s_type (step c self) = s_type self \<and>
   get_type (run (SenateElection () :: ('b, 'c, 'i) senate_election) cs) =
     Inr (None, run (SenateElection ()) cs)"
  by (simp add: get_type_def SenateElection_def SenateElection_TYPE_def init_fields
      type_step type_run)


end
